theory Spec2Isabelle
  imports Main "HOL-Library.Word" "HOL-Library.AList"
begin

section \<open>The gldriver screen: shiny/driver/gldriver/screen.go\<close>

text \<open>
  The file defines the process-wide screen object \<open>theScreen\<close> and its three
  constructors \<open>NewBuffer\<close>, \<open>NewTexture\<close> and \<open>NewWindow\<close>. Everything the
  constructors call outside the file (the OpenGL context of x/mobile/gl, the platform
  window system, \<open>compileProgram\<close>, the shader sources and the quad coordinates) is
  kept outside the model too: every such call is written to a trace together with the
  value it returned, and the returned value is read from an environment record whose
  answers may depend on the whole trace so far. Theorems quantify over the environment.
  The model runs one operation at a time, so a \<open>Lock\<close> always finds its mutex free;
  the lock and unlock are events of the trace.
\<close>

subsection \<open>Values of the imported packages\<close>

type_synonym uintptr = "64 word"



datatype Point = Point (X: int) (Y: int)

datatype Rectangle = Rectangle (Min_pt: Point) (Max_pt: Point)



record RGBA =
  Pix :: "8 word list"
  Stride :: int
  Rect :: Rectangle

text \<open>Go errors are values carrying a message.\<close>

datatype error = Errorf string

text \<open>A call returns a value, returns an error, or does not return: it panics, or
  the runtime stops the process with a fatal error (\<open>Panic\<close> stands for both, with
  the message).\<close>

datatype 'a result = Ok 'a | Err error | Panic string


text \<open>What the Go runtime of the platform can allocate: \<open>maxAlloc\<close> is its constant
  bound on the size of one allocation (\<open>2 ^ 48\<close> on amd64), and \<open>mallocgc_ok n\<close>
  tells whether the heap can supply \<open>n\<close> bytes when asked.\<close>

record runtime =
  maxAlloc :: int
  mallocgc_ok :: "int \<Rightarrow> bool"

text \<open>\<open>make([]uint8, n)\<close>: the runtime's \<open>makeslice\<close> panics for a length that is
  negative or beyond \<open>maxAlloc\<close>, the allocator stops the process when the heap cannot
  supply the bytes, and otherwise the slice holds \<open>n\<close> zero bytes.\<close>

definition makeslice :: "runtime \<Rightarrow> int \<Rightarrow> 8 word list result" where
  "makeslice R n =
     (if n < 0 \<or> maxAlloc R < n then Panic ''runtime error: makeslice: len out of range''
      else if \<not> mallocgc_ok R n then Panic ''fatal error: runtime: out of memory''
      else Ok (replicate (nat n) 0))"


text \<open>Object names of x/mobile/gl. The zero value of each is the name \<open>0\<close>.\<close>

datatype Program = Program "32 word"
datatype Attrib = Attrib "64 word"
datatype Uniform = Uniform "32 word"
datatype Buffer = Buffer "32 word"
datatype Texture = Texture "32 word"

text \<open>The constants of x/mobile/gl that the file uses, by name.\<close>

datatype Enum =
    ARRAY_BUFFER | STATIC_DRAW | TEXTURE_2D | RGBA | UNSIGNED_BYTE
  | TEXTURE_MAG_FILTER | TEXTURE_MIN_FILTER | TEXTURE_WRAP_S | TEXTURE_WRAP_T
  | LINEAR | CLAMP_TO_EDGE

text \<open>A \<open>gl.Context\<close> is an interface value: \<open>nil\<close>, or a reference to a context.\<close>

type_synonym glctx = nat

subsection \<open>Trace of the calls that leave the file\<close>

datatype gl_call =
    IsProgram Program bool
  | compileProgram string string "error + Program"
  | GetAttribLocation Program string Attrib
  | GetUniformLocation Program string Uniform
  | CreateBuffer Buffer
  | BindBuffer Enum Buffer
  | BufferData Enum "8 word list" Enum
  | CreateTexture Texture
  | BindTexture Enum Texture
  | TexImage2D Enum int int int Enum Enum "8 word list option"
  | TexParameteri Enum Enum Enum

datatype mutex = glMu | mu

type_synonym addr = nat

datatype task = drawLoop addr

datatype event =
    Lock mutex
  | Unlock mutex
  | GL glctx gl_call
  | newWindow int int uintptr
  | showWindow uintptr uintptr
  | pump_Make
  | Go task

text \<open>What the world outside the file answers, given the trace so far, and the
  constants the file takes from its sibling files.\<close>

record env =
  gl_IsProgram :: "event list \<Rightarrow> glctx \<Rightarrow> Program \<Rightarrow> bool"
  gl_compileProgram :: "event list \<Rightarrow> glctx \<Rightarrow> string \<Rightarrow> string \<Rightarrow> error + Program"
  gl_GetAttribLocation :: "event list \<Rightarrow> glctx \<Rightarrow> Program \<Rightarrow> string \<Rightarrow> Attrib"
  gl_GetUniformLocation :: "event list \<Rightarrow> glctx \<Rightarrow> Program \<Rightarrow> string \<Rightarrow> Uniform"
  gl_CreateBuffer :: "event list \<Rightarrow> glctx \<Rightarrow> Buffer"
  gl_CreateTexture :: "event list \<Rightarrow> glctx \<Rightarrow> Texture"
  cocoa_newWindow :: "event list \<Rightarrow> int \<Rightarrow> int \<Rightarrow> uintptr"
  cocoa_showWindow :: "event list \<Rightarrow> uintptr \<Rightarrow> uintptr"
  textureVertexSrc :: string
  textureFragmentSrc :: string
  quadCoords :: "8 word list"

subsection \<open>The data of the file\<close>

text \<open>A channel of \<open>struct{}\<close> values: its capacity and the number of values queued.\<close>

record chan =
  chan_cap :: nat
  chan_len :: nat

definition make_chan :: "nat \<Rightarrow> chan" where
  "make_chan n = \<lparr>chan_cap = n, chan_len = 0\<rparr>"

datatype Pump = Pump_zero | Pump_made

text \<open>\<open>windowImpl\<close>, with the fields this file reads or writes; the type is declared
  in window.go. The back pointer \<open>s\<close> is left out: the file has one screen. \<open>ctx\<close>
  holds what \<open>showWindow\<close> returns, a platform handle like the window id. \<open>ctx\<close>
  and \<open>glctx\<close> are not in the composite literal of \<open>NewWindow\<close>, so a new window has
  their zero values, \<open>0\<close> and \<open>nil\<close>.\<close>

record windowImpl =
  id_w :: uintptr
  pump :: Pump
  publish :: chan
  draw :: chan
  drawDone :: chan
  ctx :: uintptr
  glctx :: "glctx option"

record texture_program =
  program :: Program
  pos :: Attrib
  mvp :: Uniform
  uvp :: Uniform
  inUV :: Attrib
  sample :: Uniform
  quad :: Buffer

record fill_program =
  fill_program :: Program
  fill_pos :: Attrib
  fill_mvp :: Uniform
  fill_color :: Uniform
  fill_quad :: Buffer

text \<open>\<open>screenImpl\<close>. The map \<open>windows\<close> holds pointers; it is an association list
  from window id to the address of the window object.\<close>

record screenImpl =
  texture :: texture_program
  fill :: fill_program
  windows :: "(uintptr \<times> addr) list"

definition theScreen :: screenImpl where
  "theScreen =
     \<lparr>texture = \<lparr>program = Program 0, pos = Attrib 0, mvp = Uniform 0, uvp = Uniform 0,
                 inUV = Attrib 0, sample = Uniform 0, quad = Buffer 0\<rparr>,
      fill = \<lparr>fill_program = Program 0, fill_pos = Attrib 0, fill_mvp = Uniform 0,
              fill_color = Uniform 0, fill_quad = Buffer 0\<rparr>,
      windows = []\<rparr>"

record textureImpl =
  glctx_t :: glctx
  id_t :: Texture
  size_t :: Point


text \<open>The state: the screen, the window objects by address, the next free address,
  and the trace.\<close>

record state =
  scr :: screenImpl
  heap :: "addr \<Rightarrow> windowImpl"
  next_addr :: addr
  trace :: "event list"

definition zero_window :: windowImpl where
  "zero_window =
     \<lparr>id_w = 0, pump = Pump_zero, publish = make_chan 0, draw = make_chan 0,
      drawDone = make_chan 0, ctx = 0, glctx = None\<rparr>"

definition init_state :: state where
  "init_state = \<lparr>scr = theScreen, heap = (\<lambda>_. zero_window), next_addr = 0, trace = []\<rparr>"

definition emit :: "event \<Rightarrow> state \<Rightarrow> state" where
  "emit e st = st\<lparr>trace := trace st @ [e]\<rparr>"

subsection \<open>NewBuffer\<close>


subsection \<open>NewTexture\<close>

definition NoContextAvailable :: error where
  "NoContextAvailable = Errorf ''gldriver: no GL context available''"

text \<open>The loop \<open>for _, w := range s.windows { glctx = w.glctx; break }\<close>. Go visits
  the entries of a map in an order it does not specify, so the entry visited first is
  any entry: the number \<open>k\<close> chooses it.\<close>

definition find_glctx :: "nat \<Rightarrow> state \<Rightarrow> glctx option" where
  "find_glctx k st =
     (case windows (scr st) of
        [] \<Rightarrow> None
      | w # ws \<Rightarrow> glctx (heap st (snd ((w # ws) ! (k mod length (w # ws))))))"

definition call_IsProgram :: "env \<Rightarrow> glctx \<Rightarrow> Program \<Rightarrow> state \<Rightarrow> bool \<times> state" where
  "call_IsProgram E c p st =
     (let r = gl_IsProgram E (trace st) c p in (r, emit (GL c (IsProgram p r)) st))"

definition call_compileProgram ::
  "env \<Rightarrow> glctx \<Rightarrow> string \<Rightarrow> string \<Rightarrow> state \<Rightarrow> (error + Program) \<times> state" where
  "call_compileProgram E c vs fs st =
     (let r = gl_compileProgram E (trace st) c vs fs
      in (r, emit (GL c (compileProgram vs fs r)) st))"

definition call_GetAttribLocation ::
  "env \<Rightarrow> glctx \<Rightarrow> Program \<Rightarrow> string \<Rightarrow> state \<Rightarrow> Attrib \<times> state" where
  "call_GetAttribLocation E c p n st =
     (let r = gl_GetAttribLocation E (trace st) c p n
      in (r, emit (GL c (GetAttribLocation p n r)) st))"

definition call_GetUniformLocation ::
  "env \<Rightarrow> glctx \<Rightarrow> Program \<Rightarrow> string \<Rightarrow> state \<Rightarrow> Uniform \<times> state" where
  "call_GetUniformLocation E c p n st =
     (let r = gl_GetUniformLocation E (trace st) c p n
      in (r, emit (GL c (GetUniformLocation p n r)) st))"

definition call_CreateBuffer :: "env \<Rightarrow> glctx \<Rightarrow> state \<Rightarrow> Buffer \<times> state" where
  "call_CreateBuffer E c st =
     (let r = gl_CreateBuffer E (trace st) c in (r, emit (GL c (CreateBuffer r)) st))"

definition call_CreateTexture :: "env \<Rightarrow> glctx \<Rightarrow> state \<Rightarrow> Texture \<times> state" where
  "call_CreateTexture E c st =
     (let r = gl_CreateTexture E (trace st) c in (r, emit (GL c (CreateTexture r)) st))"

definition set_texture :: "(texture_program \<Rightarrow> texture_program) \<Rightarrow> state \<Rightarrow> state" where
  "set_texture f st = st\<lparr>scr := (scr st)\<lparr>texture := f (texture (scr st))\<rparr>\<rparr>"

text \<open>Lines 86 to 94: the locations and the quad buffer of a program just compiled.\<close>

definition setup_program :: "env \<Rightarrow> glctx \<Rightarrow> Program \<Rightarrow> state \<Rightarrow> state" where
  "setup_program E c p st0 =
     (let st1 = set_texture (\<lambda>t. t\<lparr>program := p\<rparr>) st0;
          (a, st2) = call_GetAttribLocation E c p ''pos'' st1;
          st2 = set_texture (\<lambda>t. t\<lparr>pos := a\<rparr>) st2;
          (u, st3) = call_GetUniformLocation E c p ''mvp'' st2;
          st3 = set_texture (\<lambda>t. t\<lparr>mvp := u\<rparr>) st3;
          (u, st4) = call_GetUniformLocation E c p ''uvp'' st3;
          st4 = set_texture (\<lambda>t. t\<lparr>uvp := u\<rparr>) st4;
          (a, st5) = call_GetAttribLocation E c p ''inUV'' st4;
          st5 = set_texture (\<lambda>t. t\<lparr>inUV := a\<rparr>) st5;
          (u, st6) = call_GetUniformLocation E c p ''sample'' st5;
          st6 = set_texture (\<lambda>t. t\<lparr>sample := u\<rparr>) st6;
          (b, st7) = call_CreateBuffer E c st6;
          st7 = set_texture (\<lambda>t. t\<lparr>quad := b\<rparr>) st7;
          st8 = emit (GL c (BindBuffer ARRAY_BUFFER (quad (texture (scr st7))))) st7
      in emit (GL c (BufferData ARRAY_BUFFER (quadCoords E) STATIC_DRAW)) st8)"

text \<open>Lines 80 to 95: the lazy compilation of the texture program.\<close>

definition ensure_program :: "env \<Rightarrow> glctx \<Rightarrow> state \<Rightarrow> error option \<times> state" where
  "ensure_program E c st0 =
     (let (valid, st1) = call_IsProgram E c (program (texture (scr st0))) st0 in
      if \<not> valid then
        (case call_compileProgram E c (textureVertexSrc E) (textureFragmentSrc E) st1 of
           (Inl err, st2) \<Rightarrow> (Some err, st2)
         | (Inr p, st2) \<Rightarrow> (None, setup_program E c p st2))
      else (None, st1))"

text \<open>Lines 97 to 110: the texture object and its parameters.\<close>

definition alloc_texture :: "env \<Rightarrow> glctx \<Rightarrow> Point \<Rightarrow> state \<Rightarrow> textureImpl \<times> state" where
  "alloc_texture E c sz st0 =
     (let (i, st1) = call_CreateTexture E c st0;
          t = \<lparr>glctx_t = c, id_t = i, size_t = sz\<rparr>;
          st2 = emit (GL c (BindTexture TEXTURE_2D (id_t t))) st1;
          st3 = emit (GL c (TexImage2D TEXTURE_2D 0 (X sz) (Y sz) RGBA UNSIGNED_BYTE None)) st2;
          st4 = emit (GL c (TexParameteri TEXTURE_2D TEXTURE_MAG_FILTER LINEAR)) st3;
          st5 = emit (GL c (TexParameteri TEXTURE_2D TEXTURE_MIN_FILTER LINEAR)) st4;
          st6 = emit (GL c (TexParameteri TEXTURE_2D TEXTURE_WRAP_S CLAMP_TO_EDGE)) st5;
          st7 = emit (GL c (TexParameteri TEXTURE_2D TEXTURE_WRAP_T CLAMP_TO_EDGE)) st6
      in (t, st7))"

text \<open>The body of \<open>NewTexture\<close> between the lock and the deferred unlock.\<close>

definition NewTexture_locked ::
  "env \<Rightarrow> nat \<Rightarrow> Point \<Rightarrow> state \<Rightarrow> textureImpl result \<times> state" where
  "NewTexture_locked E k sz st =
     (case find_glctx k st of
        None \<Rightarrow> (Err NoContextAvailable, st)
      | Some c \<Rightarrow>
          (case ensure_program E c st of
             (Some err, st1) \<Rightarrow> (Err err, st1)
           | (None, st1) \<Rightarrow>
               (let (t, st2) = alloc_texture E c sz st1 in (Ok t, st2))))"

definition NewTexture :: "env \<Rightarrow> nat \<Rightarrow> Point \<Rightarrow> state \<Rightarrow> textureImpl result \<times> state" where
  "NewTexture E k sz st =
     (let (r, st1) = NewTexture_locked E k sz (emit (Lock glMu) st)
      in (r, emit (Unlock glMu) st1))"

subsection \<open>NewWindow\<close>

text \<open>Lines 115 to 125: the platform window and the window object.\<close>

definition NewWindow_create :: "env \<Rightarrow> state \<Rightarrow> addr \<times> state" where
  "NewWindow_create E st0 =
     (let width = 1024; height = 768;
          i = cocoa_newWindow E (trace st0) width height;
          st1 = emit (newWindow width height i) st0;
          st2 = emit pump_Make st1;
          w = \<lparr>id_w = i, pump = Pump_made, publish = make_chan 1, draw = make_chan 0,
               drawDone = make_chan 0, ctx = 0, glctx = None\<rparr>;
          a = next_addr st2
      in (a, st2\<lparr>heap := (heap st2)(a := w), next_addr := Suc a\<rparr>))"

text \<open>Lines 127 to 129: the insertion into the registry, under \<open>s.mu\<close>.\<close>

definition NewWindow_register :: "addr \<Rightarrow> state \<Rightarrow> state" where
  "NewWindow_register a st0 =
     (let st1 = emit (Lock mu) st0;
          st2 = st1\<lparr>scr := (scr st1)\<lparr>windows :=
                  AList.update (id_w (heap st1 a)) a (windows (scr st1))\<rparr>\<rparr>
      in emit (Unlock mu) st2)"

text \<open>Line 131: \<open>w.ctx = showWindow(id)\<close>.\<close>

definition NewWindow_show :: "env \<Rightarrow> addr \<Rightarrow> state \<Rightarrow> state" where
  "NewWindow_show E a st0 =
     (let i = id_w (heap st0 a);
          c = cocoa_showWindow E (trace st0) i;
          st1 = emit (showWindow i c) st0
      in st1\<lparr>heap := (heap st1)(a := (heap st1 a)\<lparr>ctx := c\<rparr>)\<rparr>)"

text \<open>Line 133: \<open>go drawLoop(w)\<close>.\<close>

definition NewWindow_go :: "addr \<Rightarrow> state \<Rightarrow> state" where
  "NewWindow_go a st = emit (Go (drawLoop a)) st"

text \<open>\<open>NewWindow\<close>. The options are a parameter of any type, \<open>None\<close> for a nil
  pointer.\<close>

definition NewWindow :: "env \<Rightarrow> 'opts option \<Rightarrow> state \<Rightarrow> addr result \<times> state" where
  "NewWindow E opts st0 =
     (let (a, st1) = NewWindow_create E st0;
          st2 = NewWindow_register a st1;
          st3 = NewWindow_show E a st2;
          st4 = NewWindow_go a st3
      in (Ok a, st4))"

subsection \<open>Publish\<close>

text \<open>\<open>Window.publish()\<close> and the consumer of the publish signal live in window.go,
  which is not among the sources; the four definitions below follow the spec.\<close>

text \<open>Modelled from the spec: the send of \<open>Window.publish()\<close> (window.go is missing),
  "a bounded channel of capacity 1 with non-blocking send that drops on full".\<close>

definition try_send :: "chan \<Rightarrow> chan" where
  "try_send ch = (if chan_len ch < chan_cap ch then ch\<lparr>chan_len := Suc (chan_len ch)\<rparr> else ch)"

text \<open>Modelled from the spec: one receive attempt of the presentation path
  (window.go is missing), which consumes a pending signal if there is one.\<close>

definition try_recv :: "chan \<Rightarrow> bool \<times> chan" where
  "try_recv ch = (if 0 < chan_len ch then (True, ch\<lparr>chan_len := chan_len ch - 1\<rparr>) else (False, ch))"

text \<open>Modelled from the spec: \<open>Window.publish()\<close> (window.go is missing), the
  non-blocking send on the publish channel of the window.\<close>

definition Publish :: "addr \<Rightarrow> state \<Rightarrow> state" where
  "Publish a st = st\<lparr>heap := (heap st)(a := (heap st a)\<lparr>publish := try_send (publish (heap st a))\<rparr>)\<rparr>"

text \<open>Modelled from the spec: the signals a consumer (window.go is missing) observes
  in \<open>n\<close> receive attempts with no send in between.\<close>

fun observed :: "nat \<Rightarrow> chan \<Rightarrow> nat" where
  "observed 0 ch = 0"
| "observed (Suc n) ch =
     (case try_recv ch of (True, ch') \<Rightarrow> Suc (observed n ch') | (False, ch') \<Rightarrow> observed n ch')"

subsection \<open>Runs of NewTexture and what is read off a trace\<close>

fun NewTextures :: "env \<Rightarrow> (nat \<times> Point) list \<Rightarrow> state \<Rightarrow> textureImpl result list \<times> state" where
  "NewTextures E [] st = ([], st)"
| "NewTextures E ((k, sz) # cs) st =
     (let (r, st1) = NewTexture E k sz st;
          (rs, st2) = NewTextures E cs st1
      in (r # rs, st2))"

fun is_compile_call :: "event \<Rightarrow> bool" where
  "is_compile_call (GL c (compileProgram vs fs r)) = True"
| "is_compile_call e = False"

fun is_compiled :: "event \<Rightarrow> bool" where
  "is_compiled (GL c (compileProgram vs fs (Inr p))) = True"
| "is_compiled e = False"

fun is_CreateTexture :: "event \<Rightarrow> bool" where
  "is_CreateTexture (GL c (CreateTexture t)) = True"
| "is_CreateTexture e = False"

definition compile_calls :: "event list \<Rightarrow> nat" where
  "compile_calls tr = length (filter is_compile_call tr)"

definition compilations :: "event list \<Rightarrow> nat" where
  "compilations tr = length (filter is_compiled tr)"

fun is_Ok :: "'a result \<Rightarrow> bool" where
  "is_Ok (Ok x) = True"
| "is_Ok r = False"

text \<open>All windows of the registry carry the context \<open>c\<close>, and there is a window.\<close>

definition same_context :: "glctx \<Rightarrow> state \<Rightarrow> bool" where
  "same_context c st \<longleftrightarrow>
     windows (scr st) \<noteq> [] \<and> list_all (\<lambda>(i, a). glctx (heap st a) = Some c) (windows (scr st))"

text \<open>What the claims on lazy compilation take from OpenGL: a program that
  \<open>compileProgram\<close> has returned is a program of the context, and a program of the
  context stays one (this file never deletes a program).\<close>

definition programs_persist :: "env \<Rightarrow> glctx \<Rightarrow> bool" where
  "programs_persist E c \<longleftrightarrow>
     (\<forall>tr vs fs p. gl_compileProgram E tr c vs fs = Inr p \<longrightarrow>
        gl_IsProgram E (tr @ [GL c (compileProgram vs fs (Inr p))]) c p) \<and>
     (\<forall>tr e p. gl_IsProgram E tr c p \<longrightarrow> gl_IsProgram E (tr @ [e]) c p)"

text \<open>Line 80 read in a state: \<open>glctx.IsProgram(s.texture.program)\<close>.\<close>

definition program_valid :: "env \<Rightarrow> glctx \<Rightarrow> state \<Rightarrow> bool" where
  "program_valid E c st \<longleftrightarrow> gl_IsProgram E (trace st) c (program (texture (scr st)))"

subsection \<open>Two environments to run the model in\<close>

fun compiled_as :: "glctx \<Rightarrow> Program \<Rightarrow> event \<Rightarrow> bool" where
  "compiled_as c p (GL c' (compileProgram vs fs (Inr p'))) = (c' = c \<and> p' = p)"
| "compiled_as c p e = False"

text \<open>A context that compiles every program to the name 1 and numbers its other
  objects from 2; the platform creates the window 1 with the context handle 7.\<close>

definition good_env :: env where
  "good_env =
     \<lparr>gl_IsProgram = (\<lambda>tr c p. list_ex (compiled_as c p) tr),
      gl_compileProgram = (\<lambda>tr c vs fs. Inr (Program 1)),
      gl_GetAttribLocation = (\<lambda>tr c p n. Attrib 0),
      gl_GetUniformLocation = (\<lambda>tr c p n. Uniform 0),
      gl_CreateBuffer = (\<lambda>tr c. Buffer 2),
      gl_CreateTexture = (\<lambda>tr c. Texture 3),
      cocoa_newWindow = (\<lambda>tr w h. 1),
      cocoa_showWindow = (\<lambda>tr i. 7),
      textureVertexSrc = ''vertex'',
      textureFragmentSrc = ''fragment'',
      quadCoords = []\<rparr>"

text \<open>The same context with a shader that does not compile.\<close>

definition bad_env :: env where
  "bad_env = good_env\<lparr>gl_compileProgram := (\<lambda>tr c vs fs. Inl (Errorf ''gldriver: shader compile''))\<rparr>"


text \<open>A state with one registered window whose GL context is the context 0.\<close>

definition one_window :: state where
  "one_window =
     \<lparr>scr = theScreen\<lparr>windows := [(1, 0)]\<rparr>,
      heap = (\<lambda>_. zero_window)(0 := zero_window\<lparr>id_w := 1, pump := Pump_made,
                publish := make_chan 1, ctx := 7, glctx := Some 0\<rparr>),
      next_addr = 1,
      trace = []\<rparr>"

section \<open>Facts about the steps\<close>

lemma emit_simps:
  "trace (emit e st) = trace st @ [e]"
  "scr (emit e st) = scr st"
  "heap (emit e st) = heap st"
  "next_addr (emit e st) = next_addr st"
  by (simp_all add: emit_def)

lemma set_texture_simps:
  "trace (set_texture f st) = trace st"
  "scr (set_texture f st) = (scr st)\<lparr>texture := f (texture (scr st))\<rparr>"
  "heap (set_texture f st) = heap st"
  "next_addr (set_texture f st) = next_addr st"
  by (simp_all add: set_texture_def)

lemma find_glctx_emit: "find_glctx k (emit e st) = find_glctx k st"
  by (simp add: find_glctx_def emit_simps split: list.splits)

lemma find_glctx_empty: "windows (scr st) = [] \<Longrightarrow> find_glctx k st = None"
  by (simp add: find_glctx_def)

lemma ensure_program_fail:
  assumes "\<not> gl_IsProgram E (trace st) c (program (texture (scr st)))"
    and "gl_compileProgram E (trace st @ [GL c (IsProgram (program (texture (scr st))) False)]) c
           (textureVertexSrc E) (textureFragmentSrc E) = Inl err"
  shows "ensure_program E c st =
    (Some err, st\<lparr>trace := trace st @ [GL c (IsProgram (program (texture (scr st))) False),
        GL c (compileProgram (textureVertexSrc E) (textureFragmentSrc E) (Inl err))]\<rparr>)"
  using assms
  by (simp add: ensure_program_def call_IsProgram_def call_compileProgram_def emit_def Let_def)

lemma ensure_program_valid:
  assumes "gl_IsProgram E (trace st) c (program (texture (scr st)))"
  shows "ensure_program E c st =
    (None, st\<lparr>trace := trace st @ [GL c (IsProgram (program (texture (scr st))) True)]\<rparr>)"
  using assms
  by (simp add: ensure_program_def call_IsProgram_def emit_def Let_def)

lemma ensure_program_compiled:
  assumes "\<not> gl_IsProgram E (trace st) c (program (texture (scr st)))"
    and "gl_compileProgram E (trace st @ [GL c (IsProgram (program (texture (scr st))) False)]) c
           (textureVertexSrc E) (textureFragmentSrc E) = Inr p"
  shows "ensure_program E c st =
    (None, setup_program E c p (st\<lparr>trace := trace st @ [GL c (IsProgram (program (texture (scr st))) False),
        GL c (compileProgram (textureVertexSrc E) (textureFragmentSrc E) (Inr p))]\<rparr>))"
  using assms
  by (simp add: ensure_program_def call_IsProgram_def call_compileProgram_def emit_def Let_def)

lemma setup_program_trace:
  "\<exists>a1 u1 u2 a2 u3 b. 
     trace (setup_program E c p st) = trace st @
       [GL c (GetAttribLocation p ''pos'' a1), GL c (GetUniformLocation p ''mvp'' u1),
        GL c (GetUniformLocation p ''uvp'' u2), GL c (GetAttribLocation p ''inUV'' a2),
        GL c (GetUniformLocation p ''sample'' u3), GL c (CreateBuffer b),
        GL c (BindBuffer ARRAY_BUFFER b), GL c (BufferData ARRAY_BUFFER (quadCoords E) STATIC_DRAW)] \<and>
     scr (setup_program E c p st) = (scr st)\<lparr>texture := 
        (texture (scr st))\<lparr>program := p, pos := a1, mvp := u1, uvp := u2, inUV := a2, sample := u3, quad := b\<rparr>\<rparr> \<and>
     heap (setup_program E c p st) = heap st \<and> next_addr (setup_program E c p st) = next_addr st"
  by (simp add: setup_program_def call_GetAttribLocation_def call_GetUniformLocation_def
      call_CreateBuffer_def Let_def emit_simps set_texture_simps)

lemma alloc_texture_eq:
  "alloc_texture E c sz st =
    (\<lparr>glctx_t = c, id_t = gl_CreateTexture E (trace st) c, size_t = sz\<rparr>,
     st\<lparr>trace := trace st @
       [GL c (CreateTexture (gl_CreateTexture E (trace st) c)),
        GL c (BindTexture TEXTURE_2D (gl_CreateTexture E (trace st) c)),
        GL c (TexImage2D TEXTURE_2D 0 (X sz) (Y sz) RGBA UNSIGNED_BYTE None),
        GL c (TexParameteri TEXTURE_2D TEXTURE_MAG_FILTER LINEAR),
        GL c (TexParameteri TEXTURE_2D TEXTURE_MIN_FILTER LINEAR),
        GL c (TexParameteri TEXTURE_2D TEXTURE_WRAP_S CLAMP_TO_EDGE),
        GL c (TexParameteri TEXTURE_2D TEXTURE_WRAP_T CLAMP_TO_EDGE)]\<rparr>)"
  by (simp add: alloc_texture_def call_CreateTexture_def Let_def emit_def)

lemma NewTexture_valid:
  assumes ctx: "find_glctx k st = Some c"
    and valid: "gl_IsProgram E (trace st @ [Lock glMu]) c (program (texture (scr st)))"
  shows "\<exists>t st'. NewTexture E k sz st = (Ok t, st') \<and> scr st' = scr st \<and> heap st' = heap st \<and>
      trace st' = trace st @
        [Lock glMu, GL c (IsProgram (program (texture (scr st))) True),
         GL c (CreateTexture (id_t t)),
         GL c (BindTexture TEXTURE_2D (id_t t)),
         GL c (TexImage2D TEXTURE_2D 0 (X sz) (Y sz) RGBA UNSIGNED_BYTE None),
         GL c (TexParameteri TEXTURE_2D TEXTURE_MAG_FILTER LINEAR),
         GL c (TexParameteri TEXTURE_2D TEXTURE_MIN_FILTER LINEAR),
         GL c (TexParameteri TEXTURE_2D TEXTURE_WRAP_S CLAMP_TO_EDGE),
         GL c (TexParameteri TEXTURE_2D TEXTURE_WRAP_T CLAMP_TO_EDGE),
         Unlock glMu]"
proof -
  let ?s = "emit (Lock glMu) st"
  have a: "gl_IsProgram E (trace ?s) c (program (texture (scr ?s)))"
    using valid by (simp add: emit_simps)
  show ?thesis
    using ctx
    by (simp add: NewTexture_def NewTexture_locked_def find_glctx_emit
        ensure_program_valid [OF a] alloc_texture_eq emit_simps)
qed

lemma NewTexture_failed:
  assumes ctx: "find_glctx k st = Some c"
    and invalid: "\<not> gl_IsProgram E (trace st @ [Lock glMu]) c (program (texture (scr st)))"
    and fails: "gl_compileProgram E
        (trace st @ [Lock glMu, GL c (IsProgram (program (texture (scr st))) False)]) c
        (textureVertexSrc E) (textureFragmentSrc E) = Inl err"
  shows "NewTexture E k sz st = (Err err, st\<lparr>trace := trace st @
        [Lock glMu,
         GL c (IsProgram (program (texture (scr st))) False),
         GL c (compileProgram (textureVertexSrc E) (textureFragmentSrc E) (Inl err)),
         Unlock glMu]\<rparr>)"
proof -
  let ?s = "emit (Lock glMu) st"
  have a: "\<not> gl_IsProgram E (trace ?s) c (program (texture (scr ?s)))"
    using invalid by (simp add: emit_simps)
  have b: "gl_compileProgram E (trace ?s @ [GL c (IsProgram (program (texture (scr ?s))) False)]) c
      (textureVertexSrc E) (textureFragmentSrc E) = Inl err"
    using fails by (simp add: emit_simps)
  show ?thesis
    using ctx
    by (simp add: NewTexture_def NewTexture_locked_def find_glctx_emit
        ensure_program_fail [OF a b]) (simp add: emit_def)
qed

lemma NewTexture_compiled:
  assumes ctx: "find_glctx k st = Some c"
    and invalid: "\<not> gl_IsProgram E (trace st @ [Lock glMu]) c (program (texture (scr st)))"
    and compiles: "gl_compileProgram E
        (trace st @ [Lock glMu, GL c (IsProgram (program (texture (scr st))) False)]) c
        (textureVertexSrc E) (textureFragmentSrc E) = Inr p"
  shows "\<exists>t st' tex. NewTexture E k sz st = (Ok t, st') \<and> heap st' = heap st \<and>
      tex = texture (scr st') \<and> program tex = p \<and>
      scr st' = (scr st)\<lparr>texture := tex\<rparr> \<and>
      trace st' = trace st @
        [Lock glMu, GL c (IsProgram (program (texture (scr st))) False),
         GL c (compileProgram (textureVertexSrc E) (textureFragmentSrc E) (Inr p)),
         GL c (GetAttribLocation p ''pos'' (pos tex)),
         GL c (GetUniformLocation p ''mvp'' (mvp tex)),
         GL c (GetUniformLocation p ''uvp'' (uvp tex)),
         GL c (GetAttribLocation p ''inUV'' (inUV tex)),
         GL c (GetUniformLocation p ''sample'' (sample tex)),
         GL c (CreateBuffer (quad tex)),
         GL c (BindBuffer ARRAY_BUFFER (quad tex)),
         GL c (BufferData ARRAY_BUFFER (quadCoords E) STATIC_DRAW),
         GL c (CreateTexture (id_t t)),
         GL c (BindTexture TEXTURE_2D (id_t t)),
         GL c (TexImage2D TEXTURE_2D 0 (X sz) (Y sz) RGBA UNSIGNED_BYTE None),
         GL c (TexParameteri TEXTURE_2D TEXTURE_MAG_FILTER LINEAR),
         GL c (TexParameteri TEXTURE_2D TEXTURE_MIN_FILTER LINEAR),
         GL c (TexParameteri TEXTURE_2D TEXTURE_WRAP_S CLAMP_TO_EDGE),
         GL c (TexParameteri TEXTURE_2D TEXTURE_WRAP_T CLAMP_TO_EDGE),
         Unlock glMu]"
proof -
  let ?s = "emit (Lock glMu) st"
  let ?s2 = "?s\<lparr>trace := trace ?s @ [GL c (IsProgram (program (texture (scr ?s))) False),
        GL c (compileProgram (textureVertexSrc E) (textureFragmentSrc E) (Inr p))]\<rparr>"
  have a: "\<not> gl_IsProgram E (trace ?s) c (program (texture (scr ?s)))"
    using invalid by (simp add: emit_simps)
  have b: "gl_compileProgram E (trace ?s @ [GL c (IsProgram (program (texture (scr ?s))) False)]) c
      (textureVertexSrc E) (textureFragmentSrc E) = Inr p"
    using compiles by (simp add: emit_simps)
  from setup_program_trace [of E c p ?s2]
  obtain a1 u1 u2 a2 u3 bq where s:
    "trace (setup_program E c p ?s2) = trace ?s2 @
       [GL c (GetAttribLocation p ''pos'' a1), GL c (GetUniformLocation p ''mvp'' u1),
        GL c (GetUniformLocation p ''uvp'' u2), GL c (GetAttribLocation p ''inUV'' a2),
        GL c (GetUniformLocation p ''sample'' u3), GL c (CreateBuffer bq),
        GL c (BindBuffer ARRAY_BUFFER bq), GL c (BufferData ARRAY_BUFFER (quadCoords E) STATIC_DRAW)]"
    "scr (setup_program E c p ?s2) = (scr ?s2)\<lparr>texture := 
        (texture (scr ?s2))\<lparr>program := p, pos := a1, mvp := u1, uvp := u2, inUV := a2, sample := u3, quad := bq\<rparr>\<rparr>"
    "heap (setup_program E c p ?s2) = heap ?s2"
    by blast
  show ?thesis
    using ctx s
    by (simp add: NewTexture_def NewTexture_locked_def find_glctx_emit
        ensure_program_compiled [OF a b] alloc_texture_eq emit_simps)
qed



lemma makeslice_not_Err: "makeslice R n \<noteq> Err e"
  by (simp add: makeslice_def)


lemma NewWindow_create_eq:
  "NewWindow_create E st =
     (next_addr st,
      st\<lparr>trace := trace st @ [newWindow 1024 768 (cocoa_newWindow E (trace st) 1024 768), pump_Make],
         heap := (heap st)(next_addr st :=
            \<lparr>id_w = cocoa_newWindow E (trace st) 1024 768, pump = Pump_made,
             publish = make_chan 1, draw = make_chan 0, drawDone = make_chan 0,
             ctx = 0, glctx = None\<rparr>),
         next_addr := Suc (next_addr st)\<rparr>)"
  by (simp add: NewWindow_create_def Let_def emit_def)

lemma map_of_update_same: "map_of (AList.update k v al) k = Some v"
  by (simp add: update_conv')

lemma Publish_pow_heap:
  "publish (heap ((Publish a ^^ n) st) a) = (try_send ^^ n) (publish (heap st a))"
  by (induction n) (simp_all add: Publish_def)

lemma try_send_pow_one:
  "chan_cap ch = 1 \<Longrightarrow> chan_len ch = 0 \<Longrightarrow>
   chan_cap ((try_send ^^ n) ch) = 1 \<and> chan_len ((try_send ^^ n) ch) = min n 1"
  by (induction n) (auto simp: try_send_def)

lemma observed_eq: "observed m ch = min m (chan_len ch)"
  by (induction m arbitrary: ch) (auto simp: try_recv_def)

lemma persist_append:
  assumes "programs_persist E c" and "gl_IsProgram E tr c p"
  shows "gl_IsProgram E (tr @ tr') c p"
proof (induction tr' rule: rev_induct)
  case Nil
  from assms(2) show ?case by simp
next
  case (snoc e es)
  from assms(1) have "\<And>tr e p. gl_IsProgram E tr c p \<Longrightarrow> gl_IsProgram E (tr @ [e]) c p"
    by (simp add: programs_persist_def)
  from this [OF snoc.IH, of e] show ?case by simp
qed

lemma persist_compiled:
  assumes "programs_persist E c" and "gl_compileProgram E tr c vs fs = Inr p"
  shows "gl_IsProgram E (tr @ GL c (compileProgram vs fs (Inr p)) # tr') c p"
proof -
  from assms have "gl_IsProgram E (tr @ [GL c (compileProgram vs fs (Inr p))]) c p"
    by (simp add: programs_persist_def)
  from persist_append [OF assms(1) this, of tr'] show ?thesis by simp
qed

lemma same_context_find:
  assumes "same_context c st"
  shows "find_glctx k st = Some c"
proof (cases "windows (scr st)")
  case Nil
  with assms show ?thesis by (simp add: same_context_def)
next
  case (Cons w ws)
  let ?e = "(w # ws) ! (k mod length (w # ws))"
  have "?e \<in> set (w # ws)" by (rule nth_mem) simp
  with assms Cons have "glctx (heap st (snd ?e)) = Some c"
    by (auto simp: same_context_def list_all_iff)
  with Cons show ?thesis by (simp add: find_glctx_def)
qed

lemma counts_append:
  "compile_calls (tr @ tr') = compile_calls tr + compile_calls tr'"
  "compilations (tr @ tr') = compilations tr + compilations tr'"
  by (simp_all add: compile_calls_def compilations_def)

lemma NewTexture_valid_counts:
  assumes ctx: "find_glctx k st = Some c"
    and valid: "gl_IsProgram E (trace st @ [Lock glMu]) c (program (texture (scr st)))"
  shows "\<exists>t st' more. NewTexture E k sz st = (Ok t, st') \<and> scr st' = scr st \<and>
      heap st' = heap st \<and> trace st' = (trace st @ [Lock glMu]) @ more \<and>
      compile_calls more = 0 \<and> compilations more = 0"
proof -
  from NewTexture_valid [where sz = sz, OF ctx valid]
  obtain t st' where r: "NewTexture E k sz st = (Ok t, st')" "scr st' = scr st" "heap st' = heap st"
    and tr: "trace st' = trace st @
        [Lock glMu, GL c (IsProgram (program (texture (scr st))) True),
         GL c (CreateTexture (id_t t)),
         GL c (BindTexture TEXTURE_2D (id_t t)),
         GL c (TexImage2D TEXTURE_2D 0 (X sz) (Y sz) RGBA UNSIGNED_BYTE None),
         GL c (TexParameteri TEXTURE_2D TEXTURE_MAG_FILTER LINEAR),
         GL c (TexParameteri TEXTURE_2D TEXTURE_MIN_FILTER LINEAR),
         GL c (TexParameteri TEXTURE_2D TEXTURE_WRAP_S CLAMP_TO_EDGE),
         GL c (TexParameteri TEXTURE_2D TEXTURE_WRAP_T CLAMP_TO_EDGE),
         Unlock glMu]"
    by blast
  show ?thesis
    by (simp add: r tr compile_calls_def compilations_def)
qed

lemma NewTexture_compiled_counts:
  assumes ctx: "find_glctx k st = Some c"
    and invalid: "\<not> gl_IsProgram E (trace st @ [Lock glMu]) c (program (texture (scr st)))"
    and compiles: "gl_compileProgram E
        (trace st @ [Lock glMu, GL c (IsProgram (program (texture (scr st))) False)]) c
        (textureVertexSrc E) (textureFragmentSrc E) = Inr p"
  shows "\<exists>t st' more. NewTexture E k sz st = (Ok t, st') \<and> heap st' = heap st \<and>
      program (texture (scr st')) = p \<and> windows (scr st') = windows (scr st) \<and>
      trace st' = (trace st @ [Lock glMu, GL c (IsProgram (program (texture (scr st))) False)]) @
        GL c (compileProgram (textureVertexSrc E) (textureFragmentSrc E) (Inr p)) # more \<and>
      compile_calls more = 0 \<and> compilations more = 0"
proof -
  from NewTexture_compiled [where sz = sz, OF ctx invalid compiles]
  obtain t st' tex where r: "NewTexture E k sz st = (Ok t, st')" "heap st' = heap st"
    "tex = texture (scr st')" "program tex = p" "scr st' = (scr st)\<lparr>texture := tex\<rparr>"
    and tr: "trace st' = trace st @
        [Lock glMu, GL c (IsProgram (program (texture (scr st))) False),
         GL c (compileProgram (textureVertexSrc E) (textureFragmentSrc E) (Inr p)),
         GL c (GetAttribLocation p ''pos'' (pos tex)),
         GL c (GetUniformLocation p ''mvp'' (mvp tex)),
         GL c (GetUniformLocation p ''uvp'' (uvp tex)),
         GL c (GetAttribLocation p ''inUV'' (inUV tex)),
         GL c (GetUniformLocation p ''sample'' (sample tex)),
         GL c (CreateBuffer (quad tex)),
         GL c (BindBuffer ARRAY_BUFFER (quad tex)),
         GL c (BufferData ARRAY_BUFFER (quadCoords E) STATIC_DRAW),
         GL c (CreateTexture (id_t t)),
         GL c (BindTexture TEXTURE_2D (id_t t)),
         GL c (TexImage2D TEXTURE_2D 0 (X sz) (Y sz) RGBA UNSIGNED_BYTE None),
         GL c (TexParameteri TEXTURE_2D TEXTURE_MAG_FILTER LINEAR),
         GL c (TexParameteri TEXTURE_2D TEXTURE_MIN_FILTER LINEAR),
         GL c (TexParameteri TEXTURE_2D TEXTURE_WRAP_S CLAMP_TO_EDGE),
         GL c (TexParameteri TEXTURE_2D TEXTURE_WRAP_T CLAMP_TO_EDGE),
         Unlock glMu]"
    by blast
  have w: "windows (scr st') = windows (scr st)"
    by (subst r(5)) simp
  have pr: "program (texture (scr st')) = p"
    using r(3) r(4) by simp
  show ?thesis
    by (simp add: r(1) r(2) w pr tr compile_calls_def compilations_def)
qed

lemma step_valid:
  assumes p: "programs_persist E c" and s: "same_context c st" and v: "program_valid E c st"
  shows "\<exists>t st'. NewTexture E k sz st = (Ok t, st') \<and> same_context c st' \<and>
     program_valid E c st' \<and> texture (scr st') = texture (scr st) \<and>
     compile_calls (trace st') = compile_calls (trace st) \<and>
     compilations (trace st') = compilations (trace st)"
proof -
  from v have v': "gl_IsProgram E (trace st @ [Lock glMu]) c (program (texture (scr st)))"
    unfolding program_valid_def by (rule persist_append [OF p])
  from NewTexture_valid_counts [where sz = sz, OF same_context_find [where k = k, OF s] v']
  obtain t st' more where r: "NewTexture E k sz st = (Ok t, st')" "scr st' = scr st"
    "heap st' = heap st" "trace st' = (trace st @ [Lock glMu]) @ more"
    "compile_calls more = 0" "compilations more = 0"
    by blast
  have "program_valid E c st'"
    unfolding program_valid_def r(2) r(4) using v'
    by (rule persist_append [OF p])
  moreover have "same_context c st'"
    using s r(2) r(3) by (simp add: same_context_def)
  ultimately show ?thesis
    using r by (simp add: counts_append compile_calls_def compilations_def)
qed

lemma step_any:
  assumes p: "programs_persist E c" and s: "same_context c st"
  shows "\<exists>r st'. NewTexture E k sz st = (r, st') \<and> same_context c st' \<and>
     (compilations (trace st') = compilations (trace st) \<or>
      compilations (trace st') = Suc (compilations (trace st)) \<and> program_valid E c st') \<and>
     (is_Ok r \<longrightarrow> program_valid E c st')"
proof (cases "gl_IsProgram E (trace st @ [Lock glMu]) c (program (texture (scr st)))")
  case True
  from NewTexture_valid_counts [where sz = sz, OF same_context_find [where k = k, OF s] True]
  obtain t st' more where r: "NewTexture E k sz st = (Ok t, st')" "scr st' = scr st"
    "heap st' = heap st" "trace st' = (trace st @ [Lock glMu]) @ more"
    "compile_calls more = 0" "compilations more = 0"
    by blast
  have "program_valid E c st'"
    unfolding program_valid_def r(2) r(4) using True
    by (rule persist_append [OF p])
  moreover have "same_context c st'"
    using s r(2) r(3) by (simp add: same_context_def)
  moreover have "compilations (trace st') = compilations (trace st)"
    using r(6) by (simp add: r(4) counts_append compilations_def)
  ultimately show ?thesis using r(1) by simp
next
  case False
  let ?tr = "trace st @ [Lock glMu, GL c (IsProgram (program (texture (scr st))) False)]"
  show ?thesis
  proof (cases "gl_compileProgram E ?tr c (textureVertexSrc E) (textureFragmentSrc E)")
    case (Inl err)
    from NewTexture_failed [where sz = sz, OF same_context_find [where k = k, OF s] False Inl] s
    show ?thesis
      by (simp add: same_context_def compilations_def)
  next
    case (Inr q)
    from NewTexture_compiled_counts [where sz = sz, OF same_context_find [where k = k, OF s] False Inr]
    obtain t st' more where r: "NewTexture E k sz st = (Ok t, st')" "heap st' = heap st"
      "program (texture (scr st')) = q" "windows (scr st') = windows (scr st)"
      "trace st' = ?tr @ GL c (compileProgram (textureVertexSrc E) (textureFragmentSrc E) (Inr q)) # more"
      "compile_calls more = 0" "compilations more = 0"
      by blast
    have "program_valid E c st'"
      unfolding program_valid_def r(3) r(5) using Inr
      by (rule persist_compiled [OF p])
    moreover have "compilations (trace st') = Suc (compilations (trace st))"
      using r(7) by (simp add: r(5) compilations_def)
    moreover have "same_context c st'"
      using s r(2) r(4) by (simp add: same_context_def)
    ultimately show ?thesis using r(1) by simp
  qed
qed

lemma run_valid:
  assumes p: "programs_persist E c"
  shows "same_context c st \<Longrightarrow> program_valid E c st \<Longrightarrow>
     compile_calls (trace (snd (NewTextures E cs st))) = compile_calls (trace st) \<and>
     compilations (trace (snd (NewTextures E cs st))) = compilations (trace st) \<and>
     texture (scr (snd (NewTextures E cs st))) = texture (scr st) \<and>
     list_all is_Ok (fst (NewTextures E cs st))"
proof (induction cs arbitrary: st)
  case Nil
  show ?case by simp
next
  case (Cons a cs)
  obtain k sz where a: "a = (k, sz)" by (cases a)
  from step_valid [where k = k and sz = sz, OF p Cons.prems]
  obtain t st' where r: "NewTexture E k sz st = (Ok t, st')" "same_context c st'"
     "program_valid E c st'" "texture (scr st') = texture (scr st)"
     "compile_calls (trace st') = compile_calls (trace st)"
     "compilations (trace st') = compilations (trace st)"
    by blast
  obtain rs st'' where n: "NewTextures E cs st' = (rs, st'')"
    by (cases "NewTextures E cs st'")
  from Cons.IH [OF r(2) r(3)] r n show ?case
    by (simp add: a)
qed

lemma run_once:
  assumes p: "programs_persist E c"
  shows "same_context c st \<Longrightarrow>
     compilations (trace (snd (NewTextures E cs st))) \<le> Suc (compilations (trace st))"
proof (induction cs arbitrary: st)
  case Nil
  show ?case by simp
next
  case (Cons a cs)
  obtain k sz where a: "a = (k, sz)" by (cases a)
  from step_any [where k = k and sz = sz, OF p Cons.prems]
  obtain r st' where r: "NewTexture E k sz st = (r, st')" "same_context c st'"
     "compilations (trace st') = compilations (trace st) \<or>
      compilations (trace st') = Suc (compilations (trace st)) \<and> program_valid E c st'"
    by blast
  have e: "snd (NewTextures E (a # cs) st) = snd (NewTextures E cs st')"
    using r(1) by (cases "NewTextures E cs st'") (simp add: a)
  from r(3) show ?case
  proof
    assume "compilations (trace st') = compilations (trace st)"
    with Cons.IH [OF r(2)] e show ?thesis by simp
  next
    assume "compilations (trace st') = Suc (compilations (trace st)) \<and> program_valid E c st'"
    with run_valid [OF p r(2), of cs] e show ?thesis by simp
  qed
qed

lemma good_env_persist: "programs_persist good_env c"
  by (simp add: programs_persist_def good_env_def)

lemma one_window_same_context: "same_context 0 one_window"
  by (simp add: same_context_def one_window_def)

lemma one_window_first_texture:
  "\<exists>t st1. NewTexture good_env 0 (Point 1 1) one_window = (Ok t, st1) \<and>
     program (texture (scr st1)) = Program 1"
proof -
  have h1: "find_glctx 0 one_window = Some 0"
    by (simp add: find_glctx_def one_window_def)
  have h2: "\<not> gl_IsProgram good_env (trace one_window @ [Lock glMu]) 0
      (program (texture (scr one_window)))"
    by (simp add: good_env_def one_window_def)
  have h3: "gl_compileProgram good_env
      (trace one_window @ [Lock glMu, GL 0 (IsProgram (program (texture (scr one_window))) False)]) 0
      (textureVertexSrc good_env) (textureFragmentSrc good_env) = Inr (Program 1)"
    by (simp add: good_env_def)
  from NewTexture_compiled [where sz = "Point 1 1", OF h1 h2 h3] show ?thesis by blast
qed

lemma map_of_nth: "map_of al k = Some v \<Longrightarrow> \<exists>j < length al. al ! j = (k, v)"
  by (auto dest!: map_of_SomeD simp: in_set_conv_nth)

lemma find_glctx_nth:
  "j < length (windows (scr st)) \<Longrightarrow>
   find_glctx j st = glctx (heap st (snd (windows (scr st) ! j)))"
  by (cases "windows (scr st)") (simp_all add: find_glctx_def)

section \<open>The claims\<close>

subsection \<open>NewTexture without a window\<close>

text \<open>Claim C2. For every size, a \<open>NewTexture\<close> call made while the window registry is
  empty returns the error "no GL context available" and no texture; it makes no GL
  call, and the state is as before apart from the lock and unlock of \<open>glMu\<close>.\<close>

theorem NewTexture_no_window:
  "windows (scr st) = [] \<Longrightarrow>
   NewTexture E k sz st =
     (Err NoContextAvailable, st\<lparr>trace := trace st @ [Lock glMu, Unlock glMu]\<rparr>)"
  by (simp add: NewTexture_def NewTexture_locked_def find_glctx_emit find_glctx_empty emit_def)

theorem NewTexture_no_window_witness:
  "windows (scr init_state) = [] \<and>
   NewTexture good_env 0 (Point 64 64) init_state =
     (Err NoContextAvailable, init_state\<lparr>trace := trace init_state @ [Lock glMu, Unlock glMu]\<rparr>)"
proof -
  have h: "windows (scr init_state) = []"
    by (simp add: init_state_def theScreen_def)
  from NewTexture_no_window [OF h] h show ?thesis by simp
qed

subsection \<open>NewTexture with a window\<close>

text \<open>Claim C3, as amended. The claim as written (success whenever the registry has a
  window) does not hold: the call also fails when the window visited first has a nil
  \<open>glctx\<close>, and when the texture program has to be compiled and does not compile.
  What holds: if the window visited first has a GL context \<open>c\<close>, and the texture
  program is a program of \<open>c\<close> already or \<open>compileProgram\<close> returns one, then
  \<open>NewTexture\<close> returns a texture of the requested size on \<open>c\<close>, created by
  \<open>CreateTexture\<close>, bound, allocated by \<open>TexImage2D\<close> with the requested width and
  height, with linear magnification and minification filters and clamp-to-edge
  wrapping in both directions.\<close>

theorem NewTexture_succeeds:
  assumes ctx: "find_glctx k st = Some c"
    and ready: "gl_IsProgram E (trace st @ [Lock glMu]) c (program (texture (scr st))) \<or>
      (\<exists>p. gl_compileProgram E
        (trace st @ [Lock glMu, GL c (IsProgram (program (texture (scr st))) False)]) c
        (textureVertexSrc E) (textureFragmentSrc E) = Inr p)"
  shows "\<exists>t st' pre. NewTexture E k sz st = (Ok t, st') \<and>
      size_t t = sz \<and> glctx_t t = c \<and>
      trace st' = pre @
        [GL c (CreateTexture (id_t t)),
         GL c (BindTexture TEXTURE_2D (id_t t)),
         GL c (TexImage2D TEXTURE_2D 0 (X sz) (Y sz) RGBA UNSIGNED_BYTE None),
         GL c (TexParameteri TEXTURE_2D TEXTURE_MAG_FILTER LINEAR),
         GL c (TexParameteri TEXTURE_2D TEXTURE_MIN_FILTER LINEAR),
         GL c (TexParameteri TEXTURE_2D TEXTURE_WRAP_S CLAMP_TO_EDGE),
         GL c (TexParameteri TEXTURE_2D TEXTURE_WRAP_T CLAMP_TO_EDGE),
         Unlock glMu]"
proof -
  let ?s = "emit (Lock glMu) st"
  obtain st1 where e: "ensure_program E c ?s = (None, st1)"
  proof (cases "gl_IsProgram E (trace ?s) c (program (texture (scr ?s)))")
    case True
    from ensure_program_valid [OF True] that show ?thesis by blast
  next
    case False
    with ready obtain p where "gl_compileProgram E
        (trace ?s @ [GL c (IsProgram (program (texture (scr ?s))) False)]) c
        (textureVertexSrc E) (textureFragmentSrc E) = Inr p"
      by (auto simp: emit_simps)
    from ensure_program_compiled [OF False this] that show ?thesis by blast
  qed
  show ?thesis
    using ctx e
    by (simp add: NewTexture_def NewTexture_locked_def find_glctx_emit alloc_texture_eq emit_simps)
qed

theorem NewTexture_succeeds_witness:
  "find_glctx 0 one_window = Some 0 \<and>
   (\<exists>t st'. NewTexture good_env 0 (Point 64 64) one_window = (Ok t, st') \<and> size_t t = Point 64 64)"
proof -
  have h1: "find_glctx 0 one_window = Some 0"
    by (simp add: find_glctx_def one_window_def)
  have h2: "gl_IsProgram good_env (trace one_window @ [Lock glMu]) 0 (program (texture (scr one_window))) \<or>
      (\<exists>p. gl_compileProgram good_env
        (trace one_window @ [Lock glMu, GL 0 (IsProgram (program (texture (scr one_window))) False)]) 0
        (textureVertexSrc good_env) (textureFragmentSrc good_env) = Inr p)"
    by (simp add: good_env_def)
  from NewTexture_succeeds [OF h1 h2, of "Point 64 64"] h1
  show ?thesis by blast
qed

text \<open>The claim C3 as written fails with one registered window that has a GL context,
  when the shader does not compile.\<close>

theorem NewTexture_one_window_compile_error:
  "windows (scr one_window) \<noteq> [] \<and>
   fst (NewTexture bad_env 0 (Point 64 64) one_window) = Err (Errorf ''gldriver: shader compile'')"
  by (simp add: NewTexture_def NewTexture_locked_def find_glctx_def ensure_program_def
      call_IsProgram_def call_compileProgram_def emit_def Let_def one_window_def bad_env_def
      good_env_def theScreen_def)

subsection \<open>Lazy compilation of the texture program\<close>

text \<open>Claim C4. Let all windows of the registry carry the same context, in which a
  compiled program stays a program. Then over any sequence of \<open>NewTexture\<close> calls at
  most one compilation succeeds. A successful call that finds the program handle
  invalid calls \<open>compileProgram\<close> once, stores the program, reads its five attribute
  and uniform locations, and creates, binds and fills the quad buffer; a successful
  call that finds the handle valid compiles nothing and leaves the program state as
  it is. After any successful call, every later call succeeds, calls \<open>compileProgram\<close>
  no more and leaves the program state unchanged.\<close>

theorem texture_program_compiled_once:
  assumes p: "programs_persist E c" and s: "same_context c st"
  shows "compilations (trace (snd (NewTextures E cs st))) \<le> Suc (compilations (trace st)) \<and>
    (\<forall>k sz t st1. NewTexture E k sz st = (Ok t, st1) \<longrightarrow>
       (gl_IsProgram E (trace st @ [Lock glMu]) c (program (texture (scr st))) \<longrightarrow>
          compile_calls (trace st1) = compile_calls (trace st) \<and>
          texture (scr st1) = texture (scr st)) \<and>
       (\<not> gl_IsProgram E (trace st @ [Lock glMu]) c (program (texture (scr st))) \<longrightarrow>
          compile_calls (trace st1) = Suc (compile_calls (trace st)) \<and>
          compilations (trace st1) = Suc (compilations (trace st)) \<and>
          (\<exists>post. trace st1 = trace st @
             [Lock glMu, GL c (IsProgram (program (texture (scr st))) False),
              GL c (compileProgram (textureVertexSrc E) (textureFragmentSrc E)
                     (Inr (program (texture (scr st1))))),
              GL c (GetAttribLocation (program (texture (scr st1))) ''pos'' (pos (texture (scr st1)))),
              GL c (GetUniformLocation (program (texture (scr st1))) ''mvp'' (mvp (texture (scr st1)))),
              GL c (GetUniformLocation (program (texture (scr st1))) ''uvp'' (uvp (texture (scr st1)))),
              GL c (GetAttribLocation (program (texture (scr st1))) ''inUV'' (inUV (texture (scr st1)))),
              GL c (GetUniformLocation (program (texture (scr st1))) ''sample'' (sample (texture (scr st1)))),
              GL c (CreateBuffer (quad (texture (scr st1)))),
              GL c (BindBuffer ARRAY_BUFFER (quad (texture (scr st1)))),
              GL c (BufferData ARRAY_BUFFER (quadCoords E) STATIC_DRAW)] @ post)) \<and>
       (\<forall>cs'. compile_calls (trace (snd (NewTextures E cs' st1))) = compile_calls (trace st1) \<and>
              texture (scr (snd (NewTextures E cs' st1))) = texture (scr st1) \<and>
              list_all is_Ok (fst (NewTextures E cs' st1))))"
proof (intro conjI allI impI)
  show "compilations (trace (snd (NewTextures E cs st))) \<le> Suc (compilations (trace st))"
    using s by (rule run_once [OF p])
next
  fix k sz t st1
  assume r: "NewTexture E k sz st = (Ok t, st1)"
  assume v: "gl_IsProgram E (trace st @ [Lock glMu]) c (program (texture (scr st)))"
  from NewTexture_valid_counts [where sz = sz, OF same_context_find [where k = k, OF s] v] r
  show "compile_calls (trace st1) = compile_calls (trace st)"
    and "texture (scr st1) = texture (scr st)"
    by (auto simp: counts_append compile_calls_def)
next
  fix k sz t st1
  assume r: "NewTexture E k sz st = (Ok t, st1)"
  assume v: "\<not> gl_IsProgram E (trace st @ [Lock glMu]) c (program (texture (scr st)))"
  let ?tr = "trace st @ [Lock glMu, GL c (IsProgram (program (texture (scr st))) False)]"
  obtain q where q: "gl_compileProgram E ?tr c (textureVertexSrc E) (textureFragmentSrc E) = Inr q"
  proof (cases "gl_compileProgram E ?tr c (textureVertexSrc E) (textureFragmentSrc E)")
    case (Inl err)
    from NewTexture_failed [where sz = sz, OF same_context_find [where k = k, OF s] v Inl] r
    show ?thesis by simp
  next
    case (Inr q)
    then show ?thesis by (rule that)
  qed
  from NewTexture_compiled_counts [where sz = sz, OF same_context_find [where k = k, OF s] v q] r
  show "compile_calls (trace st1) = Suc (compile_calls (trace st))"
    and "compilations (trace st1) = Suc (compilations (trace st))"
    by (auto simp: counts_append compile_calls_def compilations_def)
  from NewTexture_compiled [where sz = sz, OF same_context_find [where k = k, OF s] v q] r
  show "\<exists>post. trace st1 = trace st @
             [Lock glMu, GL c (IsProgram (program (texture (scr st))) False),
              GL c (compileProgram (textureVertexSrc E) (textureFragmentSrc E)
                     (Inr (program (texture (scr st1))))),
              GL c (GetAttribLocation (program (texture (scr st1))) ''pos'' (pos (texture (scr st1)))),
              GL c (GetUniformLocation (program (texture (scr st1))) ''mvp'' (mvp (texture (scr st1)))),
              GL c (GetUniformLocation (program (texture (scr st1))) ''uvp'' (uvp (texture (scr st1)))),
              GL c (GetAttribLocation (program (texture (scr st1))) ''inUV'' (inUV (texture (scr st1)))),
              GL c (GetUniformLocation (program (texture (scr st1))) ''sample'' (sample (texture (scr st1)))),
              GL c (CreateBuffer (quad (texture (scr st1)))),
              GL c (BindBuffer ARRAY_BUFFER (quad (texture (scr st1)))),
              GL c (BufferData ARRAY_BUFFER (quadCoords E) STATIC_DRAW)] @ post"
    by auto
next
  fix k sz t st1 cs'
  assume r: "NewTexture E k sz st = (Ok t, st1)"
  from step_any [where k = k and sz = sz, OF p s] r
  have "same_context c st1" "program_valid E c st1" by auto
  from run_valid [OF p this, of cs']
  show "compile_calls (trace (snd (NewTextures E cs' st1))) = compile_calls (trace st1)"
    and "texture (scr (snd (NewTextures E cs' st1))) = texture (scr st1)"
    and "list_all is_Ok (fst (NewTextures E cs' st1))"
    by simp_all
qed

theorem texture_program_compiled_once_witness:
  "programs_persist good_env 0 \<and> same_context 0 one_window \<and>
   compilations (trace (snd (NewTextures good_env [(0, Point 1 1), (5, Point 2 2)] one_window))) \<le> 1 \<and>
   (\<exists>t st1. NewTexture good_env 0 (Point 1 1) one_window = (Ok t, st1) \<and>
      compile_calls (trace st1) = 1 \<and> program (texture (scr st1)) = Program 1 \<and>
      compile_calls (trace (snd (NewTextures good_env [(5, Point 2 2), (3, Point 4 4)] st1))) = 1)"
proof -
  note once = texture_program_compiled_once [OF good_env_persist one_window_same_context]
  have z: "compilations (trace one_window) = 0" "compile_calls (trace one_window) = 0"
    by (simp_all add: one_window_def compilations_def compile_calls_def)
  have inv: "\<not> gl_IsProgram good_env (trace one_window @ [Lock glMu]) 0
      (program (texture (scr one_window)))"
    by (simp add: good_env_def one_window_def)
  from one_window_first_texture obtain t st1
    where r: "NewTexture good_env 0 (Point 1 1) one_window = (Ok t, st1)"
      and f: "program (texture (scr st1)) = Program 1" by blast
  from once [of "[(0, Point 1 1), (5, Point 2 2)]"] z
  have a: "compilations (trace (snd (NewTextures good_env [(0, Point 1 1), (5, Point 2 2)] one_window))) \<le> 1"
    by simp
  from once [of "[]"] r inv z
  have b: "compile_calls (trace st1) = 1"
    and d: "\<forall>cs'. compile_calls (trace (snd (NewTextures good_env cs' st1))) = compile_calls (trace st1)"
    by auto
  from d have d': "compile_calls (trace (snd (NewTextures good_env [(5, Point 2 2), (3, Point 4 4)] st1))) =
      compile_calls (trace st1)"
    by blast
  from a b d' f r good_env_persist one_window_same_context show ?thesis
    by (simp del: NewTextures.simps)
qed

subsection \<open>Compilation failure\<close>

text \<open>Claim C5. If the texture program is not valid and \<open>compileProgram\<close> returns an
  error, \<open>NewTexture\<close> returns that error and no texture; the screen, and so the
  program handle, the locations and the quad buffer, is unchanged; \<open>compileProgram\<close>
  was called exactly once, and no texture object was created.\<close>

theorem NewTexture_compile_failure:
  assumes ctx: "find_glctx k st = Some c"
    and invalid: "\<not> gl_IsProgram E (trace st @ [Lock glMu]) c (program (texture (scr st)))"
    and fails: "gl_compileProgram E
        (trace st @ [Lock glMu, GL c (IsProgram (program (texture (scr st))) False)]) c
        (textureVertexSrc E) (textureFragmentSrc E) = Inl err"
  shows "\<exists>st'. NewTexture E k sz st = (Err err, st') \<and>
      scr st' = scr st \<and> heap st' = heap st \<and>
      trace st' = trace st @
        [Lock glMu,
         GL c (IsProgram (program (texture (scr st))) False),
         GL c (compileProgram (textureVertexSrc E) (textureFragmentSrc E) (Inl err)),
         Unlock glMu] \<and>
      compile_calls (trace st') = Suc (compile_calls (trace st)) \<and>
      filter is_CreateTexture (trace st') = filter is_CreateTexture (trace st)"
proof -
  let ?s = "emit (Lock glMu) st"
  have a: "\<not> gl_IsProgram E (trace ?s) c (program (texture (scr ?s)))"
    using invalid by (simp add: emit_simps)
  have b: "gl_compileProgram E (trace ?s @ [GL c (IsProgram (program (texture (scr ?s))) False)]) c
      (textureVertexSrc E) (textureFragmentSrc E) = Inl err"
    using fails by (simp add: emit_simps)
  show ?thesis
    using ctx
    by (simp add: NewTexture_def NewTexture_locked_def find_glctx_emit
        ensure_program_fail [OF a b] emit_simps compile_calls_def)
qed

theorem NewTexture_compile_failure_witness:
  "find_glctx 0 one_window = Some 0 \<and>
   (\<exists>st'. NewTexture bad_env 0 (Point 64 64) one_window =
       (Err (Errorf ''gldriver: shader compile''), st') \<and>
     scr st' = scr one_window \<and>
     compile_calls (trace st') = Suc (compile_calls (trace one_window)))"
proof -
  have h1: "find_glctx 0 one_window = Some 0"
    by (simp add: find_glctx_def one_window_def)
  have h2: "\<not> gl_IsProgram bad_env (trace one_window @ [Lock glMu]) 0
      (program (texture (scr one_window)))"
    by (simp add: bad_env_def good_env_def one_window_def)
  have h3: "gl_compileProgram bad_env
      (trace one_window @ [Lock glMu, GL 0 (IsProgram (program (texture (scr one_window))) False)]) 0
      (textureVertexSrc bad_env) (textureFragmentSrc bad_env) = Inl (Errorf ''gldriver: shader compile'')"
    by (simp add: bad_env_def)
  from NewTexture_compile_failure [OF h1 h2 h3, of "Point 64 64"] h1
  show ?thesis by blast
qed

subsection \<open>NewBuffer\<close>




subsection \<open>The publish channel\<close>

text \<open>Claim C7. \<open>NewWindow\<close> gives the window an empty publish channel of capacity
  one. With the non-blocking send, after \<open>n\<close> calls of \<open>Publish\<close> and no receive the
  channel holds one signal if \<open>n > 0\<close> and none otherwise, so never more than one; a
  consumer that then makes \<open>m\<close> receive attempts observes exactly one signal if both
  \<open>n\<close> and \<open>m\<close> are positive.\<close>

theorem publish_coalesced:
  "\<exists>a st'. NewWindow E opts st = (Ok a, st') \<and>
     chan_cap (publish (heap st' a)) = 1 \<and> chan_len (publish (heap st' a)) = 0 \<and>
     (\<forall>n. chan_len (publish (heap ((Publish a ^^ n) st') a)) = min n 1) \<and>
     (\<forall>n m. observed m (publish (heap ((Publish a ^^ n) st') a)) = min m (min n 1))"
proof -
  obtain a st' where r: "NewWindow E opts st = (Ok a, st')"
    by (cases "NewWindow_create E st") (simp add: NewWindow_def Let_def)
  then have c: "chan_cap (publish (heap st' a)) = 1" "chan_len (publish (heap st' a)) = 0"
    by (auto simp: NewWindow_def NewWindow_create_eq NewWindow_register_def NewWindow_show_def
      NewWindow_go_def Let_def emit_def make_chan_def)
  show ?thesis
    using r c try_send_pow_one [OF c]
    by (simp add: Publish_pow_heap observed_eq)
qed

subsection \<open>NewWindow\<close>

text \<open>Claim C8. \<open>NewWindow\<close> does the same for any two option values, and the one
  platform window it creates is created by \<open>newWindow(1024, 768)\<close>.\<close>

theorem NewWindow_ignores_options:
  "NewWindow E opts st = NewWindow E opts' st \<and>
   (\<exists>a st' i c. NewWindow E opts st = (Ok a, st') \<and>
      trace st' = trace st @
        [newWindow 1024 768 i, pump_Make, Lock mu, Unlock mu, showWindow i c, Go (drawLoop a)] \<and>
      id_w (heap st' a) = i)"
  by (simp add: NewWindow_def NewWindow_create_eq NewWindow_register_def NewWindow_show_def
      NewWindow_go_def Let_def emit_def)

text \<open>Claim C9. For every option value, the nil pointer \<open>None\<close> included, \<open>NewWindow\<close>
  returns a window and no error: the window is the object just allocated, and the
  registry maps its id to it.\<close>

theorem NewWindow_returns:
  "\<exists>st'. NewWindow E opts st = (Ok (next_addr st), st') \<and>
     next_addr st < next_addr st' \<and>
     map_of (windows (scr st')) (id_w (heap st' (next_addr st))) = Some (next_addr st)"
  by (simp add: NewWindow_def NewWindow_create_eq NewWindow_register_def NewWindow_show_def
      NewWindow_go_def Let_def emit_def map_of_update_same)

text \<open>Claim C10. \<open>NewWindow\<close> is the sequence create, register, show, go. In the state
  after the registration and before \<open>showWindow\<close> the registry maps the id of the new
  window to the window, whose \<open>ctx\<close> and \<open>glctx\<close> still have their zero values; no
  \<open>showWindow\<close> call has been made since the call began; and the loop of
  \<open>NewTexture\<close>, started in that state, can visit that window first and find no
  context. The next step makes the \<open>showWindow\<close> call and stores its result in
  \<open>ctx\<close>.\<close>

theorem NewWindow_registered_before_shown:
  "\<exists>a st1 st2 st3 i.
     NewWindow_create E st = (a, st1) \<and>
     st2 = NewWindow_register a st1 \<and>
     st3 = NewWindow_show E a st2 \<and>
     NewWindow E opts st = (Ok a, NewWindow_go a st3) \<and>
     i = id_w (heap st2 a) \<and>
     map_of (windows (scr st2)) i = Some a \<and>
     ctx (heap st2 a) = 0 \<and> glctx (heap st2 a) = None \<and>
     trace st2 = trace st @ [newWindow 1024 768 i, pump_Make, Lock mu, Unlock mu] \<and>
     (\<exists>k. find_glctx k st2 = None \<and>
          fst (NewTexture E k sz st2) = Err NoContextAvailable) \<and>
     trace st3 = trace st2 @ [showWindow i (cocoa_showWindow E (trace st2) i)] \<and>
     ctx (heap st3 a) = cocoa_showWindow E (trace st2) i \<and>
     map_of (windows (scr st3)) i = Some a"
proof -
  obtain a st1 where c: "NewWindow_create E st = (a, st1)"
    by (cases "NewWindow_create E st")
  define st2 where "st2 = NewWindow_register a st1"
  define st3 where "st3 = NewWindow_show E a st2"
  define i where "i = id_w (heap st2 a)"
  have r: "map_of (windows (scr st2)) i = Some a" "ctx (heap st2 a) = 0" "glctx (heap st2 a) = None"
    "trace st2 = trace st @ [newWindow 1024 768 i, pump_Make, Lock mu, Unlock mu]"
    using c unfolding st2_def i_def
    by (auto simp: NewWindow_create_eq NewWindow_register_def Let_def emit_def map_of_update_same)
  have s: "trace st3 = trace st2 @ [showWindow i (cocoa_showWindow E (trace st2) i)]"
    "ctx (heap st3 a) = cocoa_showWindow E (trace st2) i"
    "map_of (windows (scr st3)) i = Some a"
    using r(1) unfolding st3_def i_def
    by (simp_all add: NewWindow_show_def Let_def emit_def)
  have n: "NewWindow E opts st = (Ok a, NewWindow_go a st3)"
    using c by (simp add: NewWindow_def st2_def st3_def)
  from map_of_nth [OF r(1)] obtain j
    where j: "j < length (windows (scr st2))" "windows (scr st2) ! j = (i, a)"
    by blast
  have f: "find_glctx j st2 = None"
    using find_glctx_nth [OF j(1)] j(2) r(3) by simp
  then have "fst (NewTexture E j sz st2) = Err NoContextAvailable"
    by (simp add: NewTexture_def NewTexture_locked_def find_glctx_emit)
  with f have o: "\<exists>k. find_glctx k st2 = None \<and>
      fst (NewTexture E k sz st2) = Err NoContextAvailable"
    by blast
  from c n r s o show ?thesis
    unfolding st2_def [symmetric] st3_def [symmetric] i_def [symmetric]
    by (simp add: st2_def [symmetric] st3_def [symmetric] i_def [symmetric])
qed

end
